theory Spec2Isabelle
  imports Complex_Main "HOL-Library.AList"
begin

section \<open>Python values\<close>

text \<open>
  The transform in \<^verbatim>\<open>torch_geometric/transforms/pad.py\<close> is dynamically typed: its
  constructors inspect their arguments with \<^verbatim>\<open>isinstance\<close>.  The values that reach those
  checks are modelled by one datatype.  A \<^verbatim>\<open>bool\<close> is represented by the \<^verbatim>\<open>int\<close> it equals
  (\<^verbatim>\<open>bool\<close> is a subclass of \<^verbatim>\<open>int\<close>), a \<^verbatim>\<open>float\<close> by a real number (floats are only
  stored, compared and copied), a \<^verbatim>\<open>dict\<close> by its items in insertion order.  The three
  subclasses of \<^verbatim>\<open>MappingPadding\<close> share their fields, so one constructor tagged with the
  class stands for their instances.
\<close>

datatype mapping_class = AttrNamePadding | NodeTypePadding | EdgeTypePadding

datatype pyval =
    PNone
  | PInt int
  | PFloat real
  | PStr string
  | PTuple "pyval list"
  | PList "pyval list"
  | PDict "(pyval \<times> pyval) list"
  | UniformPaddingObj pyval
  | MappingPaddingObj mapping_class "(pyval \<times> pyval) list" pyval

text \<open>Every \<^verbatim>\<open>raise\<close> and failing \<^verbatim>\<open>assert\<close> of the source is one value of this type.\<close>

datatype error =
    UniformValueType pyval
  | PaddingValuesNotDict pyval
  | KeyTypeNotAccepted mapping_class
  | ValTypeNotAccepted mapping_class
  | EdgeTypeNumElems nat
  | EdgeTypeElemType
  | MaxNumNodesType pyval
  | MaxNumEdgesType pyval
  | ExcludesX
  | InvalidPadArgument string
  | NodeTypeNotStr pyval
  | NodeSizeMissing pyval
  | EdgeTypeNotTriple pyval
  | NodePadForData pyval
  | EdgePadForData pyval
  | NumNodesForData pyval
  | NumEdgesForData
  | NodePadForHeteroData pyval
  | EdgePadForHeteroData pyval
  | NodesNotGreater int nat
  | EdgesLower int nat
  | AttributeError
  | IndexError
  | KeyError
  | TypeError
  | ValueError
  | RuntimeError

section \<open>Padding policies\<close>

text \<open>\<^verbatim>\<open>PadValTypes = (float, int)\<close>, and the \<^verbatim>\<open>isinstance\<close> tests the classes use.\<close>

fun is_PadVal :: "pyval \<Rightarrow> bool" where
  "is_PadVal (PInt i) = True"
| "is_PadVal (PFloat r) = True"
| "is_PadVal v = False"

fun is_str :: "pyval \<Rightarrow> bool" where
  "is_str (PStr s) = True"
| "is_str v = False"

fun is_tuple :: "pyval \<Rightarrow> bool" where
  "is_tuple (PTuple vs) = True"
| "is_tuple v = False"

fun is_dict :: "pyval \<Rightarrow> bool" where
  "is_dict (PDict kvs) = True"
| "is_dict v = False"

fun is_int :: "pyval \<Rightarrow> bool" where
  "is_int (PInt i) = True"
| "is_int v = False"

fun is_UniformPadding :: "pyval \<Rightarrow> bool" where
  "is_UniformPadding (UniformPaddingObj v) = True"
| "is_UniformPadding v = False"

fun is_instance :: "mapping_class \<Rightarrow> pyval \<Rightarrow> bool" where
  "is_instance c (MappingPaddingObj c' kvs d) = (c = c')"
| "is_instance c v = False"

fun is_Padding :: "pyval \<Rightarrow> bool" where
  "is_Padding (UniformPaddingObj v) = True"
| "is_Padding (MappingPaddingObj c kvs d) = True"
| "is_Padding v = False"

text \<open>\<^verbatim>\<open>UniformPadding.__init__\<close> with its \<^verbatim>\<open>_validate\<close>.\<close>

definition UniformPadding_init :: "pyval \<Rightarrow> error + pyval" where
  "UniformPadding_init padding_values =
     (if is_PadVal padding_values then Inr (UniformPaddingObj padding_values)
      else Inl (UniformValueType padding_values))"

text \<open>The class attributes \<^verbatim>\<open>key_types\<close> and \<^verbatim>\<open>val_types\<close>, as the tests they are used for.\<close>

fun key_types :: "mapping_class \<Rightarrow> pyval \<Rightarrow> bool" where
  "key_types AttrNamePadding k = is_str k"
| "key_types NodeTypePadding k = is_str k"
| "key_types EdgeTypePadding k = is_tuple k"

fun val_types :: "mapping_class \<Rightarrow> pyval \<Rightarrow> bool" where
  "val_types AttrNamePadding v = (is_UniformPadding v \<or> is_PadVal v)"
| "val_types NodeTypePadding v =
     (is_UniformPadding v \<or> is_instance AttrNamePadding v \<or> is_PadVal v)"
| "val_types EdgeTypePadding v =
     (is_UniformPadding v \<or> is_instance AttrNamePadding v \<or> is_PadVal v)"

text \<open>\<^verbatim>\<open>MappingPadding._validate_key_val\<close>, the base method.\<close>

definition base_validate_key_val :: "mapping_class \<Rightarrow> pyval \<Rightarrow> pyval \<Rightarrow> error + unit" where
  "base_validate_key_val c key val =
     (if \<not> key_types c key then Inl (KeyTypeNotAccepted c)
      else if \<not> val_types c val then Inl (ValTypeNotAccepted c)
      else Inr ())"

text \<open>
  \<^verbatim>\<open>EdgeTypePadding._validate_key_val\<close>: the base checks, then the number of elements
  (\<^verbatim>\<open>key_num_elems = 3\<close>), then the type of each element.  The key is a tuple once the base
  checks have passed.
\<close>

definition edge_validate_key_val :: "pyval \<Rightarrow> pyval \<Rightarrow> error + unit" where
  "edge_validate_key_val key val =
     (case base_validate_key_val EdgeTypePadding key val of
        Inl e \<Rightarrow> Inl e
      | Inr u \<Rightarrow>
          (case key of
             PTuple elems \<Rightarrow>
               if length elems \<noteq> 3 then Inl (EdgeTypeNumElems (length elems))
               else if \<not> list_all is_str elems then Inl EdgeTypeElemType
               else Inr ()
           | other \<Rightarrow> Inl TypeError))"

text \<open>Method dispatch on the class of the object being built.\<close>

fun validate_key_val :: "mapping_class \<Rightarrow> pyval \<Rightarrow> pyval \<Rightarrow> error + unit" where
  "validate_key_val EdgeTypePadding key val = edge_validate_key_val key val"
| "validate_key_val c key val = base_validate_key_val c key val"

text \<open>The loop of \<^verbatim>\<open>MappingPadding._validate\<close> over the items; the first failure ends it.\<close>

fun validate_items :: "mapping_class \<Rightarrow> (pyval \<times> pyval) list \<Rightarrow> error + unit" where
  "validate_items c [] = Inr ()"
| "validate_items c ((key, val) # rest) =
     (case validate_key_val c key val of
        Inl e \<Rightarrow> Inl e
      | Inr u \<Rightarrow> validate_items c rest)"

definition validate :: "mapping_class \<Rightarrow> pyval \<Rightarrow> error + unit" where
  "validate c padding_values =
     (case padding_values of
        PDict items \<Rightarrow> validate_items c items
      | other \<Rightarrow> Inl (PaddingValuesNotDict other))"

text \<open>
  \<^verbatim>\<open>MappingPadding._process\<close>: every item whose value is a bare scalar is replaced, at its
  place, by a \<^verbatim>\<open>UniformPadding\<close> built from it.
\<close>

fun process :: "(pyval \<times> pyval) list \<Rightarrow> error + (pyval \<times> pyval) list" where
  "process [] = Inr []"
| "process ((key, pad_val) # rest) =
     (if is_PadVal pad_val then
        (case UniformPadding_init pad_val of
           Inl e \<Rightarrow> Inl e
         | Inr u \<Rightarrow> (case process rest of Inl e \<Rightarrow> Inl e | Inr rest' \<Rightarrow> Inr ((key, u) # rest')))
      else (case process rest of Inl e \<Rightarrow> Inl e | Inr rest' \<Rightarrow> Inr ((key, pad_val) # rest')))"

text \<open>
  \<^verbatim>\<open>MappingPadding.__init__\<close>, which the three subclasses call unchanged: an absent
  \<^verbatim>\<open>padding_values\<close> is the empty dict; the argument is validated, copied and processed.
  \<^verbatim>\<open>default_value\<close> is stored as it is given.
\<close>

definition MappingPadding_init :: "mapping_class \<Rightarrow> pyval \<Rightarrow> pyval \<Rightarrow> error + pyval" where
  "MappingPadding_init c padding_values default_value =
     (let padding_values = (if padding_values = PNone then PDict [] else padding_values) in
      case validate c padding_values of
        Inl e \<Rightarrow> Inl e
      | Inr u \<Rightarrow>
          (case padding_values of
             PDict items \<Rightarrow>
               (case process items of
                  Inl e \<Rightarrow> Inl e
                | Inr items' \<Rightarrow> Inr (MappingPaddingObj c items' default_value))
           | other \<Rightarrow> Inl TypeError))"

lemma size_map_of_less:
  "map_of kvs k = Some v \<Longrightarrow> size v < Suc (size_list (size_prod size size) kvs)"
  by (induction kvs) (auto split: if_splits)

text \<open>
  \<^verbatim>\<open>get_val\<close> of the four classes.  The call on a stored value is dynamic dispatch, hence
  the recursion; a value without that method raises \<^verbatim>\<open>AttributeError\<close>.
\<close>

function get_val :: "pyval \<Rightarrow> pyval \<Rightarrow> pyval \<Rightarrow> error + pyval" where
  "get_val (UniformPaddingObj v) store_type attr_name = Inr v"
| "get_val (MappingPaddingObj AttrNamePadding kvs d) store_type attr_name =
     (case map_of kvs attr_name of
        Some p \<Rightarrow> get_val p PNone PNone
      | None \<Rightarrow> Inr d)"
| "get_val (MappingPaddingObj NodeTypePadding kvs d) store_type attr_name =
     (case map_of kvs store_type of
        Some p \<Rightarrow> get_val p PNone attr_name
      | None \<Rightarrow> Inr d)"
| "get_val (MappingPaddingObj EdgeTypePadding kvs d) store_type attr_name =
     (case map_of kvs store_type of
        Some p \<Rightarrow> get_val p PNone attr_name
      | None \<Rightarrow> Inr d)"
| "get_val PNone store_type attr_name = Inl AttributeError"
| "get_val (PInt i) store_type attr_name = Inl AttributeError"
| "get_val (PFloat r) store_type attr_name = Inl AttributeError"
| "get_val (PStr s) store_type attr_name = Inl AttributeError"
| "get_val (PTuple vs) store_type attr_name = Inl AttributeError"
| "get_val (PList vs) store_type attr_name = Inl AttributeError"
| "get_val (PDict kvs) store_type attr_name = Inl AttributeError"
  by pat_completeness auto
termination
  by (relation "measure (\<lambda>(p, s, a). size p)") (auto dest: size_map_of_less)

section \<open>Size resolvers\<close>

text \<open>
  \<^verbatim>\<open>Pad._IntOrDict\<close> holds the raw value and whether it is a number
  (\<^verbatim>\<open>isinstance(value, numbers.Number)\<close>), and has the method \<^verbatim>\<open>is_none\<close>.  Its subclass
  \<^verbatim>\<open>_NumNodes\<close> adds no field; its subclass \<^verbatim>\<open>_NumEdges\<close> adds the node-count resolver it
  derives defaults from.  The two subclasses are two records with the inherited fields
  written out.  The nested \<^verbatim>\<open>defaultdict\<close> of \<^verbatim>\<open>_NumEdges\<close>, keyed by \<^verbatim>\<open>(src, dst)\<close> and
  then by the relation, is a dict of dicts.
\<close>

record NumNodes =
  nn_value :: pyval
  nn_is_number :: bool

record NumEdges =
  ne_value :: pyval
  ne_is_number :: bool
  num_nodes :: NumNodes

fun is_Number :: "pyval \<Rightarrow> bool" where
  "is_Number (PInt i) = True"
| "is_Number (PFloat r) = True"
| "is_Number v = False"

text \<open>\<^verbatim>\<open>_IntOrDict.is_none\<close>, which the source calls on the edge-count resolver only.\<close>

definition is_none :: "NumEdges \<Rightarrow> bool" where
  "is_none self = (ne_value self = PNone)"

definition NumNodes_init :: "pyval \<Rightarrow> error + NumNodes" where
  "NumNodes_init v =
     (if is_int v \<or> is_dict v then Inr \<lparr>nn_value = v, nn_is_number = is_Number v\<rparr>
      else Inl (MaxNumNodesType v))"

text \<open>
  \<^verbatim>\<open>_NumNodes.get_val\<close>.  Past the first test the value is a dict; \<^verbatim>\<open>.keys()\<close> of anything
  else raises.
\<close>

definition NumNodes_get_val :: "NumNodes \<Rightarrow> pyval \<Rightarrow> error + pyval" where
  "NumNodes_get_val self key =
     (if nn_is_number self \<or> nn_value self = PNone then Inr (nn_value self)
      else if \<not> is_str key then Inl (NodeTypeNotStr key)
      else (case nn_value self of
              PDict items \<Rightarrow>
                (case map_of items key of
                   None \<Rightarrow> Inl (NodeSizeMissing key)
                 | Some v \<Rightarrow> Inr v)
            | other \<Rightarrow> Inl AttributeError))"

text \<open>
  The product of two sizes.  Sizes are \<^verbatim>\<open>int\<close>s by the signature of \<^verbatim>\<open>Pad\<close>; the product
  of anything else is reported as a \<^verbatim>\<open>TypeError\<close>.
\<close>

fun py_mul :: "pyval \<Rightarrow> pyval \<Rightarrow> error + pyval" where
  "py_mul (PInt a) (PInt b) = Inr (PInt (a * b))"
| "py_mul a b = Inl TypeError"

text \<open>
  Unpacking a key into three names: a tuple of three elements, or a string of three
  characters; any other length is a \<^verbatim>\<open>ValueError\<close>, a value that is not iterable a
  \<^verbatim>\<open>TypeError\<close>.
\<close>

fun unpack3 :: "pyval \<Rightarrow> error + (pyval \<times> pyval \<times> pyval)" where
  "unpack3 (PTuple [a, b, c]) = Inr (a, b, c)"
| "unpack3 (PTuple vs) = Inl ValueError"
| "unpack3 (PList [a, b, c]) = Inr (a, b, c)"
| "unpack3 (PList vs) = Inl ValueError"
| "unpack3 (PStr [a, b, c]) = Inr (PStr [a], PStr [b], PStr [c])"
| "unpack3 (PStr s) = Inl ValueError"
| "unpack3 v = Inl TypeError"

text \<open>
  Reading and writing \<^verbatim>\<open>d[src, dst][edge_type]\<close> in the nested \<^verbatim>\<open>defaultdict\<close>.  The read
  is the pair of membership tests of \<^verbatim>\<open>get_val\<close>; the write creates the inner dict when the
  outer key is new.
\<close>

definition get_nested :: "(pyval \<times> pyval) list \<Rightarrow> pyval \<Rightarrow> pyval \<Rightarrow> pyval \<Rightarrow> pyval option" where
  "get_nested d src dst edge_type =
     (case map_of d (PTuple [src, dst]) of
        Some (PDict inner) \<Rightarrow> map_of inner edge_type
      | other \<Rightarrow> None)"

definition set_nested ::
  "(pyval \<times> pyval) list \<Rightarrow> pyval \<Rightarrow> pyval \<Rightarrow> pyval \<Rightarrow> pyval \<Rightarrow> (pyval \<times> pyval) list" where
  "set_nested d src dst edge_type v =
     (let inner = (case map_of d (PTuple [src, dst]) of Some (PDict i) \<Rightarrow> i | other \<Rightarrow> [])
      in AList.update (PTuple [src, dst]) (PDict (AList.update edge_type v inner)) d)"

text \<open>The loop of \<^verbatim>\<open>_NumEdges.__init__\<close> that seeds the explicit entries.\<close>

fun seed_num_edges ::
  "(pyval \<times> pyval) list \<Rightarrow> (pyval \<times> pyval) list \<Rightarrow> error + (pyval \<times> pyval) list" where
  "seed_num_edges [] num_edges = Inr num_edges"
| "seed_num_edges ((k, v) # rest) num_edges =
     (case unpack3 k of
        Inl e \<Rightarrow> Inl e
      | Inr (src_node, edge_type, dst_node) \<Rightarrow>
          seed_num_edges rest (set_nested num_edges src_node dst_node edge_type v))"

definition NumEdges_init :: "pyval \<Rightarrow> NumNodes \<Rightarrow> error + NumEdges" where
  "NumEdges_init v nodes =
     (if \<not> (v = PNone \<or> is_int v \<or> is_dict v) then Inl (MaxNumEdgesType v)
      else
        (case
           (if v \<noteq> PNone then
              (if is_int v then Inr v
               else (case v of
                       PDict items \<Rightarrow>
                         (case seed_num_edges items [] of
                            Inl e \<Rightarrow> Inl e
                          | Inr d \<Rightarrow> Inr (PDict d))
                     | other \<Rightarrow> Inl AttributeError))
            else if nn_is_number nodes then
              (case NumNodes_get_val nodes PNone of
                 Inl e \<Rightarrow> Inl e
               | Inr a \<Rightarrow>
                   (case NumNodes_get_val nodes PNone of
                      Inl e \<Rightarrow> Inl e
                    | Inr b \<Rightarrow> py_mul a b))
            else Inr (PDict []))
         of
           Inl e \<Rightarrow> Inl e
         | Inr num_edges \<Rightarrow>
             Inr \<lparr>ne_value = num_edges, ne_is_number = is_Number num_edges, num_nodes = nodes\<rparr>))"

text \<open>
  \<^verbatim>\<open>_NumEdges.get_val\<close> returns the size and the resolver, whose cache it may have filled.
\<close>

definition NumEdges_get_val :: "NumEdges \<Rightarrow> pyval \<Rightarrow> error + (pyval \<times> NumEdges)" where
  "NumEdges_get_val self key =
     (if ne_is_number self \<or> ne_value self = PNone then Inr (ne_value self, self)
      else
        (case key of
           PTuple [src_v, edge_type, dst_v] \<Rightarrow>
             (case ne_value self of
                PDict d \<Rightarrow>
                  (case get_nested d src_v dst_v edge_type of
                     Some n \<Rightarrow> Inr (n, self)
                   | None \<Rightarrow>
                       (case NumNodes_get_val (num_nodes self) src_v of
                          Inl e \<Rightarrow> Inl e
                        | Inr a \<Rightarrow>
                            (case NumNodes_get_val (num_nodes self) dst_v of
                               Inl e \<Rightarrow> Inl e
                             | Inr b \<Rightarrow>
                                 (case py_mul a b of
                                    Inl e \<Rightarrow> Inl e
                                  | Inr max_num_edges \<Rightarrow>
                                      Inr (max_num_edges,
                                           self\<lparr>ne_value :=
                                             PDict (set_nested d src_v dst_v edge_type
                                                      max_num_edges)\<rparr>)))))
              | other \<Rightarrow> Inl AttributeError)
         | other \<Rightarrow> Inl (EdgeTypeNotTriple key)))"

section \<open>The transform and its construction\<close>

record Pad =
  default_pad_value :: pyval
  max_num_nodes :: NumNodes
  max_num_edges :: NumEdges
  exclude_keys :: "string list"
  node_pad :: pyval
  edge_pad :: pyval
  node_additional_attrs_pad :: "(string \<times> pyval) list"

definition process_padding_argument :: "pyval \<Rightarrow> pyval \<Rightarrow> string \<Rightarrow> error + pyval" where
  "process_padding_argument default_pad padding name =
     (if is_Padding padding then Inr padding
      else if padding = PNone then Inr default_pad
      else (case UniformPadding_init padding of
              Inl e \<Rightarrow> Inl (InvalidPadArgument name)
            | Inr u \<Rightarrow> Inr u))"

text \<open>
  \<^verbatim>\<open>Pad.__init__\<close>, in the order of its statements.  \<^verbatim>\<open>set(exclude_keys)\<close> is the list of
  the distinct names.
\<close>

definition Pad_init ::
  "pyval \<Rightarrow> pyval \<Rightarrow> pyval \<Rightarrow> pyval \<Rightarrow> pyval \<Rightarrow> string list option \<Rightarrow> error + Pad" where
  "Pad_init max_nodes max_edges node_pad_value edge_pad_value mask_pad_value excl =
     (case UniformPadding_init (PFloat 0) of
        Inl e \<Rightarrow> Inl e
      | Inr dflt \<Rightarrow>
     (case NumNodes_init max_nodes of
        Inl e \<Rightarrow> Inl e
      | Inr nodes \<Rightarrow>
     (case NumEdges_init max_edges nodes of
        Inl e \<Rightarrow> Inl e
      | Inr edges \<Rightarrow>
     (let excluded = (case excl of None \<Rightarrow> [] | Some ks \<Rightarrow> remdups ks) in
      if ''x'' \<in> set excluded then Inl ExcludesX
      else
     (case process_padding_argument dflt node_pad_value ''node_pad_value'' of
        Inl e \<Rightarrow> Inl e
      | Inr npad \<Rightarrow>
     (case process_padding_argument dflt edge_pad_value ''edge_pad_value'' of
        Inl e \<Rightarrow> Inl e
      | Inr epad \<Rightarrow>
     (let mask = (if mask_pad_value = PNone then PFloat 0 else mask_pad_value);
          mask_attrs = [''train_mask'', ''val_mask'', ''test_mask'']
      in Inr \<lparr>default_pad_value = dflt, max_num_nodes = nodes, max_num_edges = edges,
              exclude_keys = excluded, node_pad = npad, edge_pad = epad,
              node_additional_attrs_pad = map (\<lambda>key. (key, mask)) mask_attrs\<rparr>)))))))"

section \<open>Tensors and the padding primitive\<close>

text \<open>
  A tensor is its shape and its elements in row-major order; it is well formed when the
  number of elements is the product of the shape.
\<close>

record tensor =
  shape :: "nat list"
  elems :: "pyval list"




text \<open>\<open>chunks n k xs\<close> cuts \<open>xs\<close> into \<open>n\<close> consecutive pieces of length \<open>k\<close>.\<close>

fun chunks :: "nat \<Rightarrow> nat \<Rightarrow> 'a list \<Rightarrow> 'a list list" where
  "chunks 0 k xs = []"
| "chunks (Suc n) k xs = take k xs # chunks n k (drop k xs)"

text \<open>
  Modelled from the spec: the tensor padding primitive (\<^verbatim>\<open>torch.nn.functional.pad\<close> in
  constant mode), a collaborator outside the repository.  It returns a new tensor with
  additional slots along a dimension, all holding the fill value, the original data
  keeping the lower indices.  \<open>pad_dim\<close> extends one dimension on both sides; \<open>F_pad\<close>
  reads the list of amounts the way the library does, a pair \<open>(left, right)\<close> for the
  last dimension first, and rejects a list of odd length or with more pairs than
  dimensions.  The source passes amounts that are not negative.
\<close>

definition pad_dim :: "tensor \<Rightarrow> nat \<Rightarrow> nat \<Rightarrow> nat \<Rightarrow> pyval \<Rightarrow> tensor" where
  "pad_dim t d left right v =
     (let outer = prod_list (take d (shape t));
          inner = prod_list (drop (Suc d) (shape t));
          n = shape t ! d
      in \<lparr>shape = (shape t)[d := left + n + right],
          elems = concat (map (\<lambda>c. replicate (left * inner) v @ c @ replicate (right * inner) v)
                            (chunks outer (n * inner) (elems t)))\<rparr>)"

fun F_pad_dims :: "tensor \<Rightarrow> nat \<Rightarrow> nat list \<Rightarrow> pyval \<Rightarrow> tensor" where
  "F_pad_dims t k (left # right # pads) v =
     F_pad_dims (pad_dim t (length (shape t) - Suc k) left right v) (Suc k) pads v"
| "F_pad_dims t k pads v = t"

definition F_pad :: "tensor \<Rightarrow> nat list \<Rightarrow> pyval \<Rightarrow> error + tensor" where
  "F_pad input pads v =
     (if odd (length pads) \<or> 2 * length (shape input) < length pads then Inl RuntimeError
      else Inr (F_pad_dims input 0 pads v))"

text \<open>The position a Python list index denotes in a list of length \<open>n\<close>, if any.\<close>

definition py_index :: "nat \<Rightarrow> int \<Rightarrow> nat option" where
  "py_index n i =
     (if 0 \<le> i \<and> i < int n then Some (nat i)
      else if - int n \<le> i \<and> i < 0 then Some (nat (int n + i))
      else None)"

text \<open>\<^verbatim>\<open>Pad._pad_tensor_dim\<close>: for the dimension \<open>d\<close>, the list of amounts is all zero
  but at index \<open>- 2 * d - 1\<close>.\<close>

definition pad_tensor_dim :: "tensor \<Rightarrow> int \<Rightarrow> nat \<Rightarrow> pyval \<Rightarrow> error + tensor" where
  "pad_tensor_dim input d len pad_value =
     (let pads = replicate (2 * length (shape input)) 0 in
      case py_index (length pads) (- 2 * d - 1) of
        None \<Rightarrow> Inl IndexError
      | Some j \<Rightarrow> F_pad input (pads[j := len]) pad_value)"

text \<open>
  The assignment \<^verbatim>\<open>padded[1, c:] = v\<close>: index 1 must exist along the first dimension; the
  elements whose first index is 1 and whose second index is at least \<open>c\<close> are overwritten.
\<close>

definition assign_row1_from :: "tensor \<Rightarrow> nat \<Rightarrow> pyval \<Rightarrow> error + tensor" where
  "assign_row1_from t c v =
     (case shape t of
        d0 # d1 # ds \<Rightarrow>
          if d0 \<le> 1 then Inl IndexError
          else Inr (t\<lparr>elems :=
                 map (\<lambda>(j, x). if j div (d1 * prod_list ds) = 1 \<and> c \<le> (j div prod_list ds) mod d1
                                then v else x)
                     (enumerate 0 (elems t))\<rparr>)
      | other \<Rightarrow> Inl IndexError)"

text \<open>\<^verbatim>\<open>Pad._pad_edge_index\<close>.\<close>

definition pad_edge_index :: "tensor \<Rightarrow> nat \<Rightarrow> pyval \<Rightarrow> pyval \<Rightarrow> error + tensor" where
  "pad_edge_index input len src_pad_value dst_pad_value =
     (let pads = [0, len, 0, 0] in
      case F_pad input pads src_pad_value of
        Inl e \<Rightarrow> Inl e
      | Inr padded \<Rightarrow>
          if src_pad_value \<noteq> dst_pad_value
          then assign_row1_from padded (shape input ! 1) dst_pad_value
          else Inr padded)"

section \<open>Records and stores\<close>

text \<open>
  Modelled from the spec: the record and storage abstraction (\<^verbatim>\<open>Data\<close>, \<^verbatim>\<open>HeteroData\<close> and
  their stores), a collaborator outside the repository.  A store exposes its attributes
  (a dict from names to tensors), the predicates "is node-level attribute" and "is
  edge-level attribute", and the counts of entities currently present; a record exposes
  the varying dimension of an attribute given its current tensor.  A homogeneous record
  has one store; a heterogeneous record has node stores by node type and edge stores by
  (source, relation, destination) triple.  The source reads the counts and never assigns
  them, so they are inputs here.  Looking up a node type the record does not have is a
  \<^verbatim>\<open>KeyError\<close> in this model.
\<close>

record store =
  attrs :: "(string \<times> tensor) list"
  is_node_attr :: "string \<Rightarrow> bool"
  is_edge_attr :: "string \<Rightarrow> bool"
  store_num_nodes :: nat
  store_num_edges :: nat

type_synonym cat_dim = "string \<Rightarrow> tensor \<Rightarrow> int"

type_synonym edge_type = "string \<times> string \<times> string"

datatype graph =
    Data store cat_dim
  | HeteroData "(string \<times> store) list" "(edge_type \<times> store) list" cat_dim

definition keys :: "store \<Rightarrow> string list" where
  "keys st = map fst (attrs st)"

definition setitem :: "store \<Rightarrow> string \<Rightarrow> tensor \<Rightarrow> store" where
  "setitem st key t = st\<lparr>attrs := AList.update key t (attrs st)\<rparr>"

definition delitem :: "store \<Rightarrow> string \<Rightarrow> store" where
  "delitem st key = st\<lparr>attrs := AList.delete key (attrs st)\<rparr>"

section \<open>The orchestrator\<close>

text \<open>
  The two predicates that select the attributes to pad.  \<^verbatim>\<open>self.exclude_keys\<close> is always a
  set (\<^verbatim>\<open>__init__\<close> builds one also from an absent argument), so the test
  \<^verbatim>\<open>self.exclude_keys is None\<close> of the source is never true and is left out.
\<close>

definition should_pad_node_attr :: "Pad \<Rightarrow> string \<Rightarrow> bool" where
  "should_pad_node_attr self attr_name =
     (if map_of (node_additional_attrs_pad self) attr_name \<noteq> None then True
      else if attr_name \<notin> set (exclude_keys self) then True
      else False)"

definition should_pad_edge_attr :: "Pad \<Rightarrow> string \<Rightarrow> bool" where
  "should_pad_edge_attr self attr_name =
     (if is_none (max_num_edges self) then False
      else if attr_name = ''edge_index'' then True
      else if attr_name \<notin> set (exclude_keys self) then True
      else False)"

definition get_node_padding :: "Pad \<Rightarrow> string \<Rightarrow> pyval \<Rightarrow> error + pyval" where
  "get_node_padding self attr_name node_type =
     (case map_of (node_additional_attrs_pad self) attr_name of
        Some v \<Rightarrow> Inr v
      | None \<Rightarrow> get_val (node_pad self) node_type (PStr attr_name))"

definition get_edge_padding :: "Pad \<Rightarrow> string \<Rightarrow> pyval \<Rightarrow> error + pyval" where
  "get_edge_padding self attr_name edge_type = get_val (edge_pad self) edge_type (PStr attr_name)"

text \<open>The loop of \<^verbatim>\<open>__pad_node_store\<close> over the attributes to pad.\<close>

fun pad_node_attrs ::
  "Pad \<Rightarrow> cat_dim \<Rightarrow> pyval \<Rightarrow> nat \<Rightarrow> string list \<Rightarrow> store \<Rightarrow> error + store" where
  "pad_node_attrs self get_dim_fn node_type num_pad_nodes [] st = Inr st"
| "pad_node_attrs self get_dim_fn node_type num_pad_nodes (attr_name # rest) st =
     (case map_of (attrs st) attr_name of
        None \<Rightarrow> Inl KeyError
      | Some attr \<Rightarrow>
          (case get_node_padding self attr_name node_type of
             Inl e \<Rightarrow> Inl e
           | Inr pad_value \<Rightarrow>
               (case pad_tensor_dim attr (get_dim_fn attr_name attr) num_pad_nodes pad_value of
                  Inl e \<Rightarrow> Inl e
                | Inr padded \<Rightarrow>
                    pad_node_attrs self get_dim_fn node_type num_pad_nodes rest
                      (setitem st attr_name padded))))"

text \<open>
  \<^verbatim>\<open>Pad.__pad_node_store\<close>.  A target that is not an \<^verbatim>\<open>int\<close> is reported as a
  \<^verbatim>\<open>TypeError\<close>.
\<close>

definition pad_node_store :: "Pad \<Rightarrow> store \<Rightarrow> cat_dim \<Rightarrow> pyval \<Rightarrow> error + store" where
  "pad_node_store self st get_dim_fn node_type =
     (let attrs_to_pad =
            filter (\<lambda>attr. is_node_attr st attr \<and> should_pad_node_attr self attr) (keys st)
      in if attrs_to_pad = [] then Inr st
         else
           (case NumNodes_get_val (max_num_nodes self) node_type of
              Inl e \<Rightarrow> Inl e
            | Inr (PInt num_target_nodes) \<Rightarrow>
                if \<not> num_target_nodes > int (store_num_nodes st)
                then Inl (NodesNotGreater num_target_nodes (store_num_nodes st))
                else pad_node_attrs self get_dim_fn node_type
                       (nat (num_target_nodes - int (store_num_nodes st))) attrs_to_pad st
            | Inr other \<Rightarrow> Inl TypeError))"

text \<open>
  The loop of \<^verbatim>\<open>__pad_edge_store\<close> over the attributes to pad.  The source collects them
  in a \<^verbatim>\<open>set\<close>, whose order of iteration is not fixed; each attribute is read and written
  on its own, so the order decides only which of several errors is raised.  The model
  takes them in the order of the keys.
\<close>

fun pad_edge_attrs ::
  "Pad \<Rightarrow> cat_dim \<Rightarrow> pyval \<Rightarrow> nat \<Rightarrow> nat \<Rightarrow> nat \<Rightarrow> string list \<Rightarrow> store \<Rightarrow> error + store" where
  "pad_edge_attrs self get_dim_fn edge_type num_pad_edges src_pad_value dst_pad_value [] st =
     Inr st"
| "pad_edge_attrs self get_dim_fn edge_type num_pad_edges src_pad_value dst_pad_value
     (attr_name # rest) st =
     (case map_of (attrs st) attr_name of
        None \<Rightarrow> Inl KeyError
      | Some attr \<Rightarrow>
          (case (if attr_name = ''edge_index''
                 then pad_edge_index attr num_pad_edges
                        (PInt (int src_pad_value)) (PInt (int dst_pad_value))
                 else (case get_edge_padding self attr_name edge_type of
                         Inl e \<Rightarrow> Inl e
                       | Inr pad_value \<Rightarrow>
                           pad_tensor_dim attr (get_dim_fn attr_name attr) num_pad_edges
                             pad_value))
           of
             Inl e \<Rightarrow> Inl e
           | Inr padded \<Rightarrow>
               pad_edge_attrs self get_dim_fn edge_type num_pad_edges src_pad_value
                 dst_pad_value rest (setitem st attr_name padded)))"

text \<open>
  \<^verbatim>\<open>Pad.__pad_edge_store\<close>.  Resolving the target may fill the cache of
  \<^verbatim>\<open>self.max_num_edges\<close>, so the transform is returned with the store.  \<^verbatim>\<open>num_nodes\<close> is an
  \<^verbatim>\<open>int\<close> or a pair of them.
\<close>

definition pad_edge_store ::
  "Pad \<Rightarrow> store \<Rightarrow> cat_dim \<Rightarrow> nat + nat \<times> nat \<Rightarrow> pyval \<Rightarrow> error + (store \<times> Pad)" where
  "pad_edge_store self st get_dim_fn nodes edge_type =
     (let attrs_to_pad =
            filter (\<lambda>attr. is_edge_attr st attr \<and> should_pad_edge_attr self attr) (keys st)
      in if attrs_to_pad = [] then Inr (st, self)
         else
           (case NumEdges_get_val (max_num_edges self) edge_type of
              Inl e \<Rightarrow> Inl e
            | Inr (PInt num_target_edges, cache) \<Rightarrow>
                if \<not> num_target_edges \<ge> int (store_num_edges st)
                then Inl (EdgesLower num_target_edges (store_num_edges st))
                else
                  (let num_pad_edges = nat (num_target_edges - int (store_num_edges st));
                       (src_pad_value, dst_pad_value) =
                          (case nodes of Inl n \<Rightarrow> (n, n) | Inr (s, d) \<Rightarrow> (s, d))
                   in case pad_edge_attrs (self\<lparr>max_num_edges := cache\<rparr>) get_dim_fn edge_type
                             num_pad_edges src_pad_value dst_pad_value attrs_to_pad st of
                        Inl e \<Rightarrow> Inl e
                      | Inr st' \<Rightarrow> Inr (st', self\<lparr>max_num_edges := cache\<rparr>))
            | Inr (other, cache) \<Rightarrow> Inl TypeError))"

text \<open>The loop that deletes the excluded keys a store has.\<close>

definition remove_excluded :: "Pad \<Rightarrow> store \<Rightarrow> store" where
  "remove_excluded self st =
     fold (\<lambda>key st. if key \<in> set (keys st) then delitem st key else st) (exclude_keys self) st"

text \<open>The two loops of the heterogeneous branch of \<^verbatim>\<open>__call__\<close>.\<close>

fun pad_edge_items ::
  "Pad \<Rightarrow> (string \<times> store) list \<Rightarrow> cat_dim \<Rightarrow> (edge_type \<times> store) list \<Rightarrow>
     error + ((edge_type \<times> store) list \<times> Pad)" where
  "pad_edge_items self nodes get_dim_fn [] = Inr ([], self)"
| "pad_edge_items self nodes get_dim_fn (((src_node_type, rel, dst_node_type), st) # rest) =
     (let st1 = remove_excluded self st in
      case map_of nodes src_node_type of
        None \<Rightarrow> Inl KeyError
      | Some src \<Rightarrow>
          (case map_of nodes dst_node_type of
             None \<Rightarrow> Inl KeyError
           | Some dst \<Rightarrow>
               (case pad_edge_store self st1 get_dim_fn
                       (Inr (store_num_nodes src, store_num_nodes dst))
                       (PTuple [PStr src_node_type, PStr rel, PStr dst_node_type]) of
                  Inl e \<Rightarrow> Inl e
                | Inr (st2, self2) \<Rightarrow>
                    (case pad_edge_items self2 nodes get_dim_fn rest of
                       Inl e \<Rightarrow> Inl e
                     | Inr (rest', self3) \<Rightarrow>
                         Inr (((src_node_type, rel, dst_node_type), st2) # rest', self3)))))"

fun pad_node_items ::
  "Pad \<Rightarrow> cat_dim \<Rightarrow> (string \<times> store) list \<Rightarrow> error + (string \<times> store) list" where
  "pad_node_items self get_dim_fn [] = Inr []"
| "pad_node_items self get_dim_fn ((node_type, st) # rest) =
     (case pad_node_store self (remove_excluded self st) get_dim_fn (PStr node_type) of
        Inl e \<Rightarrow> Inl e
      | Inr st' \<Rightarrow>
          (case pad_node_items self get_dim_fn rest of
             Inl e \<Rightarrow> Inl e
           | Inr rest' \<Rightarrow> Inr ((node_type, st') # rest')))"

text \<open>
  The body of \<^verbatim>\<open>Pad.__call__\<close> on the content of a record: the record after the call and
  the transform after the call.
\<close>

fun call_graph :: "Pad \<Rightarrow> graph \<Rightarrow> error + (graph \<times> Pad)" where
  "call_graph self (Data st get_dim_fn) =
     (if \<not> (is_UniformPadding (node_pad self) \<or> is_instance AttrNamePadding (node_pad self))
      then Inl (NodePadForData (node_pad self))
      else if \<not> (is_UniformPadding (edge_pad self) \<or> is_instance AttrNamePadding (edge_pad self))
      then Inl (EdgePadForData (edge_pad self))
      else if \<not> nn_is_number (max_num_nodes self)
      then Inl (NumNodesForData (nn_value (max_num_nodes self)))
      else if \<not> (ne_is_number (max_num_edges self) \<or> is_none (max_num_edges self))
      then Inl NumEdgesForData
      else
        (let st1 = remove_excluded self st in
         case pad_edge_store self st1 get_dim_fn (Inl (store_num_nodes st1)) PNone of
           Inl e \<Rightarrow> Inl e
         | Inr (st2, self2) \<Rightarrow>
             (case pad_node_store self2 st2 get_dim_fn PNone of
                Inl e \<Rightarrow> Inl e
              | Inr st3 \<Rightarrow> Inr (Data st3 get_dim_fn, self2))))"
| "call_graph self (HeteroData nodes edges get_dim_fn) =
     (if \<not> (is_UniformPadding (node_pad self) \<or> is_instance AttrNamePadding (node_pad self)
            \<or> is_instance NodeTypePadding (node_pad self))
      then Inl (NodePadForHeteroData (node_pad self))
      else if \<not> (is_UniformPadding (edge_pad self) \<or> is_instance AttrNamePadding (edge_pad self)
                 \<or> is_instance EdgeTypePadding (edge_pad self))
      then Inl (EdgePadForHeteroData (edge_pad self))
      else
        (case pad_edge_items self nodes get_dim_fn edges of
           Inl e \<Rightarrow> Inl e
         | Inr (edges', self2) \<Rightarrow>
             (case pad_node_items self2 get_dim_fn nodes of
                Inl e \<Rightarrow> Inl e
              | Inr nodes' \<Rightarrow> Inr (HeteroData nodes' edges' get_dim_fn, self2))))"

text \<open>
  \<^verbatim>\<open>Pad.__call__\<close> on a reference: the record lives in a heap of objects, the call
  mutates it where it is and returns the reference it was given.
\<close>

type_synonym heap = "nat \<rightharpoonup> graph"

definition call :: "Pad \<Rightarrow> heap \<Rightarrow> nat \<Rightarrow> error + (nat \<times> heap \<times> Pad)" where
  "call self h data =
     (case h data of
        None \<Rightarrow> Inl KeyError
      | Some g \<Rightarrow>
          (case call_graph self g of
             Inl e \<Rightarrow> Inl e
           | Inr (g', self') \<Rightarrow> Inr (data, h(data \<mapsto> g'), self')))"

section \<open>A small homogeneous record\<close>

text \<open>
  The record of the spec's first scenario: three nodes with a feature tensor \<^verbatim>\<open>x\<close> of shape
  \<open>[3, F]\<close>, two edges with a connectivity tensor \<^verbatim>\<open>edge_index\<close> of shape \<open>[2, 2]\<close>.  A
  homogeneous record varies connectivity along its last dimension and every other
  attribute along its first.
\<close>

definition scenario_store :: "nat \<Rightarrow> pyval list \<Rightarrow> pyval list \<Rightarrow> store" where
  "scenario_store F xs es =
     \<lparr>attrs = [(''x'', \<lparr>shape = [3, F], elems = xs\<rparr>),
               (''edge_index'', \<lparr>shape = [2, 2], elems = es\<rparr>)],
      is_node_attr = (\<lambda>key. key = ''x''),
      is_edge_attr = (\<lambda>key. key = ''edge_index''),
      store_num_nodes = 3,
      store_num_edges = 2\<rparr>"

definition scenario_cat_dim :: cat_dim where
  "scenario_cat_dim = (\<lambda>key t. if key = ''edge_index'' then - 1 else 0)"

text \<open>
  The transform of that scenario, \<^verbatim>\<open>Pad(max_num_nodes=5)\<close> with every other argument
  absent, as \<^verbatim>\<open>Pad.__init__\<close> builds it.
\<close>

definition scenario_pad :: Pad where
  "scenario_pad =
     \<lparr>default_pad_value = UniformPaddingObj (PFloat 0),
      max_num_nodes = \<lparr>nn_value = PInt 5, nn_is_number = True\<rparr>,
      max_num_edges = \<lparr>ne_value = PInt 25, ne_is_number = True,
                       num_nodes = \<lparr>nn_value = PInt 5, nn_is_number = True\<rparr>\<rparr>,
      exclude_keys = [],
      node_pad = UniformPaddingObj (PFloat 0),
      edge_pad = UniformPaddingObj (PFloat 0),
      node_additional_attrs_pad =
        [(''train_mask'', PFloat 0), (''val_mask'', PFloat 0), (''test_mask'', PFloat 0)]\<rparr>"

section \<open>A small heterogeneous record\<close>

text \<open>
  The record of the spec's second scenario: node type \<^verbatim>\<open>a\<close> with two nodes, node type \<^verbatim>\<open>b\<close>
  with three, and two edges from \<^verbatim>\<open>a\<close> to \<^verbatim>\<open>b\<close> of type \<^verbatim>\<open>(a, rel, b)\<close>; each node store has a
  feature tensor \<^verbatim>\<open>x\<close> with two columns.  The transform is
  \<^verbatim>\<open>Pad(max_num_nodes={'a': 4, 'b': 5})\<close> with every other argument absent, as
  \<^verbatim>\<open>Pad.__init__\<close> builds it.
\<close>

definition hetero_pad :: Pad where
  "hetero_pad =
     \<lparr>default_pad_value = UniformPaddingObj (PFloat 0),
      max_num_nodes = \<lparr>nn_value = PDict [(PStr ''a'', PInt 4), (PStr ''b'', PInt 5)],
                       nn_is_number = False\<rparr>,
      max_num_edges = \<lparr>ne_value = PDict [], ne_is_number = False,
                       num_nodes = \<lparr>nn_value = PDict [(PStr ''a'', PInt 4), (PStr ''b'', PInt 5)],
                                    nn_is_number = False\<rparr>\<rparr>,
      exclude_keys = [],
      node_pad = UniformPaddingObj (PFloat 0),
      edge_pad = UniformPaddingObj (PFloat 0),
      node_additional_attrs_pad =
        [(''train_mask'', PFloat 0), (''val_mask'', PFloat 0), (''test_mask'', PFloat 0)]\<rparr>"




section \<open>What a call is observed on\<close>






text \<open>
  Two states of the transform that differ at most in the value of the edge-count
  resolver, absent in both or in neither.
\<close>

definition cache_only :: "Pad \<Rightarrow> Pad \<Rightarrow> bool" where
  "cache_only self self' =
     (default_pad_value self' = default_pad_value self
      \<and> max_num_nodes self' = max_num_nodes self
      \<and> exclude_keys self' = exclude_keys self
      \<and> node_pad self' = node_pad self
      \<and> edge_pad self' = edge_pad self
      \<and> node_additional_attrs_pad self' = node_additional_attrs_pad self
      \<and> ne_is_number (max_num_edges self') = ne_is_number (max_num_edges self)
      \<and> num_nodes (max_num_edges self') = num_nodes (max_num_edges self)
      \<and> (ne_value (max_num_edges self') = PNone) = (ne_value (max_num_edges self) = PNone))"

section \<open>The node-count resolver\<close>

text \<open>
  Claim C5, as the code has it.  The spec lets the node-count size be \<^verbatim>\<open>None\<close>; the
  constructor of \<^verbatim>\<open>_NumNodes\<close> asserts \<^verbatim>\<open>isinstance(value, (int, dict))\<close> and so rejects
  \<^verbatim>\<open>None\<close>.
\<close>

theorem NumNodes_rejects_None: "NumNodes_init PNone = Inl (MaxNumNodesType PNone)"
  by (simp add: NumNodes_init_def)

text \<open>
  Claim C5, amended: the node-count size is accepted exactly when it is an integer or a
  mapping.  A resolver built from an integer returns it for every key (as does, by the
  first test of \<^verbatim>\<open>get_val\<close>, a resolver whose value is \<^verbatim>\<open>None\<close>, which construction never
  yields).  A resolver built from a mapping rejects a key that is not a string, and for a
  string key fails with the missing-size error naming the key exactly when the key is
  absent from the mapping, returning the stored size otherwise.
\<close>

theorem NumNodes_resolver:
  "(NumNodes_init v = (if is_int v \<or> is_dict v then Inr \<lparr>nn_value = v, nn_is_number = is_int v\<rparr>
                       else Inl (MaxNumNodesType v)))
   \<and> (NumNodes_init (PInt n) = Inr nodes \<longrightarrow> NumNodes_get_val nodes key = Inr (PInt n))
   \<and> (nn_value nodes = PNone \<longrightarrow> NumNodes_get_val nodes key = Inr PNone)
   \<and> (NumNodes_init (PDict m) = Inr nodes \<longrightarrow>
        (\<not> is_str key \<longrightarrow> NumNodes_get_val nodes key = Inl (NodeTypeNotStr key))
        \<and> (is_str key \<longrightarrow>
             NumNodes_get_val nodes key =
               (case map_of m key of None \<Rightarrow> Inl (NodeSizeMissing key) | Some n \<Rightarrow> Inr n)))"
  by (cases v) (auto simp: NumNodes_init_def NumNodes_get_val_def)

theorem NumNodes_resolver_witness:
  "NumNodes_init (PInt 5) = Inr \<lparr>nn_value = PInt 5, nn_is_number = True\<rparr>
   \<and> NumNodes_get_val \<lparr>nn_value = PInt 5, nn_is_number = True\<rparr> (PStr ''a'') = Inr (PInt 5)
   \<and> NumNodes_init (PDict [(PStr ''a'', PInt 4)])
       = Inr \<lparr>nn_value = PDict [(PStr ''a'', PInt 4)], nn_is_number = False\<rparr>
   \<and> NumNodes_get_val \<lparr>nn_value = PDict [(PStr ''a'', PInt 4)], nn_is_number = False\<rparr> (PStr ''b'')
       = Inl (NodeSizeMissing (PStr ''b''))
   \<and> NumNodes_get_val \<lparr>nn_value = PDict [(PStr ''a'', PInt 4)], nn_is_number = False\<rparr> (PStr ''a'')
       = Inr (PInt 4)
   \<and> NumNodes_get_val \<lparr>nn_value = PDict [(PStr ''a'', PInt 4)], nn_is_number = False\<rparr> PNone
       = Inl (NodeTypeNotStr PNone)"
  using NumNodes_resolver [of "PInt 5" 5 "\<lparr>nn_value = PInt 5, nn_is_number = True\<rparr>" "PStr ''a''" "[]"]
    NumNodes_resolver [of "PDict [(PStr ''a'', PInt 4)]" 0
      "\<lparr>nn_value = PDict [(PStr ''a'', PInt 4)], nn_is_number = False\<rparr>" "PStr ''b''" "[(PStr ''a'', PInt 4)]"]
    NumNodes_resolver [of "PDict [(PStr ''a'', PInt 4)]" 0
      "\<lparr>nn_value = PDict [(PStr ''a'', PInt 4)], nn_is_number = False\<rparr>" "PStr ''a''" "[(PStr ''a'', PInt 4)]"]
    NumNodes_resolver [of "PDict [(PStr ''a'', PInt 4)]" 0
      "\<lparr>nn_value = PDict [(PStr ''a'', PInt 4)], nn_is_number = False\<rparr>" "PNone" "[(PStr ''a'', PInt 4)]"]
  by simp

section \<open>The edge-count resolver\<close>

lemma NumEdges_init_not_none:
  assumes "NumEdges_init v nodes = Inr edges"
  shows "ne_value edges \<noteq> PNone"
proof (cases v)
  case PNone
  with assms show ?thesis
    by (auto simp: NumEdges_init_def NumNodes_get_val_def
        split: if_splits sum.splits elim!: py_mul.elims)
next
  case (PInt i)
  with assms show ?thesis by (auto simp: NumEdges_init_def)
next
  case (PDict items)
  with assms show ?thesis by (auto simp: NumEdges_init_def split: sum.splits)
qed (use assms in \<open>auto simp: NumEdges_init_def\<close>)

text \<open>
  Claim C4, as the code has it.  The spec has \<^verbatim>\<open>is_none()\<close> return true when
  \<^verbatim>\<open>max_num_edges\<close> is absent.  With \<^verbatim>\<open>max_num_nodes = 5\<close> and \<^verbatim>\<open>max_num_edges\<close> absent, the
  constructor stores the derived size 25, and \<^verbatim>\<open>is_none()\<close> is false.
\<close>

theorem is_none_false_when_absent:
  "NumEdges_init PNone \<lparr>nn_value = PInt 5, nn_is_number = True\<rparr>
     = Inr \<lparr>ne_value = PInt 25, ne_is_number = True,
            num_nodes = \<lparr>nn_value = PInt 5, nn_is_number = True\<rparr>\<rparr>
   \<and> is_none \<lparr>ne_value = PInt 25, ne_is_number = True,
               num_nodes = \<lparr>nn_value = PInt 5, nn_is_number = True\<rparr>\<rparr> = False"
  by (simp add: NumEdges_init_def NumNodes_get_val_def is_none_def)

lemma Pad_init_scenario:
  "Pad_init (PInt 5) PNone PNone PNone PNone None = Inr scenario_pad"
  by (simp add: Pad_init_def UniformPadding_init_def NumNodes_init_def NumEdges_init_def
      NumNodes_get_val_def process_padding_argument_def scenario_pad_def Let_def)

lemma Pad_init_not_none:
  assumes "Pad_init max_nodes max_edges node_pad_value edge_pad_value mask_pad_value excl = Inr self"
  shows "\<not> is_none (max_num_edges self)"
proof -
  from assms obtain nodes edges where "NumEdges_init max_edges nodes = Inr edges"
    and "max_num_edges self = edges"
    by (auto simp: Pad_init_def Let_def split: sum.splits if_splits)
  with NumEdges_init_not_none show ?thesis by (auto simp: is_none_def)
qed

text \<open>
  Claim C4, amended: \<^verbatim>\<open>is_none()\<close> is false of every resolver the constructor builds.  An
  absent \<^verbatim>\<open>max_num_edges\<close> is replaced at construction by the node count squared when the
  node count is one integer, and by an empty per-type mapping when the node counts are a
  mapping.  An edge attribute qualifies for padding exactly when \<^verbatim>\<open>is_none()\<close> is false and
  the attribute is the connectivity attribute or is not excluded; so on a transform the
  constructor returns, the test of \<^verbatim>\<open>is_none()\<close> excludes no attribute.  When no attribute
  of a store qualifies, edge padding leaves the store and the transform as they are.
\<close>

theorem absent_max_num_edges_is_derived:
  "(NumNodes_init (PInt n) = Inr nodes \<longrightarrow>
      NumEdges_init PNone nodes
        = Inr \<lparr>ne_value = PInt (n * n), ne_is_number = True, num_nodes = nodes\<rparr>)
   \<and> (NumNodes_init (PDict m) = Inr nodes \<longrightarrow>
      NumEdges_init PNone nodes
        = Inr \<lparr>ne_value = PDict [], ne_is_number = False, num_nodes = nodes\<rparr>)
   \<and> (NumEdges_init v nodes = Inr edges \<longrightarrow> \<not> is_none edges)
   \<and> (Pad_init max_nodes max_edges node_pad_value edge_pad_value mask_pad_value excl = Inr built
        \<longrightarrow> \<not> is_none (max_num_edges built)
          \<and> should_pad_edge_attr built attr_name
              = (attr_name = ''edge_index'' \<or> attr_name \<notin> set (exclude_keys built)))
   \<and> should_pad_edge_attr self attr_name
       = (\<not> is_none (max_num_edges self)
          \<and> (attr_name = ''edge_index'' \<or> attr_name \<notin> set (exclude_keys self)))
   \<and> (filter (\<lambda>attr. is_edge_attr st attr \<and> should_pad_edge_attr self attr) (keys st) = []
        \<longrightarrow> pad_edge_store self st get_dim_fn counts edge_type = Inr (st, self))"
proof (intro conjI impI)
  assume "NumNodes_init (PInt n) = Inr nodes"
  then show "NumEdges_init PNone nodes
        = Inr \<lparr>ne_value = PInt (n * n), ne_is_number = True, num_nodes = nodes\<rparr>"
    by (auto simp: NumNodes_init_def NumEdges_init_def NumNodes_get_val_def)
next
  assume "NumNodes_init (PDict m) = Inr nodes"
  then show "NumEdges_init PNone nodes
        = Inr \<lparr>ne_value = PDict [], ne_is_number = False, num_nodes = nodes\<rparr>"
    by (auto simp: NumNodes_init_def NumEdges_init_def)
next
  assume "NumEdges_init v nodes = Inr edges"
  then show "\<not> is_none edges"
    by (auto simp: is_none_def dest: NumEdges_init_not_none)
next
  assume built: "Pad_init max_nodes max_edges node_pad_value edge_pad_value mask_pad_value excl
                   = Inr built"
  from Pad_init_not_none [OF built] show "\<not> is_none (max_num_edges built)" .
  from Pad_init_not_none [OF built]
  show "should_pad_edge_attr built attr_name
          = (attr_name = ''edge_index'' \<or> attr_name \<notin> set (exclude_keys built))"
    by (simp add: should_pad_edge_attr_def)
next
  show "should_pad_edge_attr self attr_name
       = (\<not> is_none (max_num_edges self)
          \<and> (attr_name = ''edge_index'' \<or> attr_name \<notin> set (exclude_keys self)))"
    by (simp add: should_pad_edge_attr_def)
next
  assume "filter (\<lambda>attr. is_edge_attr st attr \<and> should_pad_edge_attr self attr) (keys st) = []"
  then show "pad_edge_store self st get_dim_fn counts edge_type = Inr (st, self)"
    by (simp add: pad_edge_store_def)
qed

theorem absent_max_num_edges_is_derived_witness:
  "NumNodes_init (PInt 3) = Inr \<lparr>nn_value = PInt 3, nn_is_number = True\<rparr>
   \<and> NumEdges_init PNone \<lparr>nn_value = PInt 3, nn_is_number = True\<rparr>
       = Inr \<lparr>ne_value = PInt 9, ne_is_number = True,
              num_nodes = \<lparr>nn_value = PInt 3, nn_is_number = True\<rparr>\<rparr>
   \<and> NumNodes_init (PDict [(PStr ''a'', PInt 4), (PStr ''b'', PInt 5)])
       = Inr \<lparr>nn_value = PDict [(PStr ''a'', PInt 4), (PStr ''b'', PInt 5)], nn_is_number = False\<rparr>
   \<and> NumEdges_init PNone
         \<lparr>nn_value = PDict [(PStr ''a'', PInt 4), (PStr ''b'', PInt 5)], nn_is_number = False\<rparr>
       = Inr \<lparr>ne_value = PDict [], ne_is_number = False,
              num_nodes = \<lparr>nn_value = PDict [(PStr ''a'', PInt 4), (PStr ''b'', PInt 5)],
                           nn_is_number = False\<rparr>\<rparr>
   \<and> \<not> is_none \<lparr>ne_value = PDict [], ne_is_number = False,
              num_nodes = \<lparr>nn_value = PDict [(PStr ''a'', PInt 4), (PStr ''b'', PInt 5)],
                           nn_is_number = False\<rparr>\<rparr>
   \<and> Pad_init (PInt 5) PNone PNone PNone PNone None = Inr scenario_pad
   \<and> \<not> is_none (max_num_edges scenario_pad)
   \<and> should_pad_edge_attr scenario_pad ''edge_index''
   \<and> should_pad_edge_attr scenario_pad ''edge_attr''
   \<and> pad_edge_store scenario_pad
        ((scenario_store 1 [PFloat 1, PFloat 2, PFloat 3] [PInt 0, PInt 1, PInt 1, PInt 2])
           \<lparr>is_edge_attr := (\<lambda>key. False)\<rparr>)
        scenario_cat_dim (Inl 3) PNone
       = Inr ((scenario_store 1 [PFloat 1, PFloat 2, PFloat 3] [PInt 0, PInt 1, PInt 1, PInt 2])
                \<lparr>is_edge_attr := (\<lambda>key. False)\<rparr>,
              scenario_pad)"
proof -
  let ?n3 = "\<lparr>nn_value = PInt 3, nn_is_number = True\<rparr>"
  let ?m = "[(PStr ''a'', PInt 4), (PStr ''b'', PInt 5)]"
  let ?nm = "\<lparr>nn_value = PDict ?m, nn_is_number = False\<rparr>"
  let ?em = "\<lparr>ne_value = PDict [], ne_is_number = False, num_nodes = ?nm\<rparr>"
  let ?st = "(scenario_store 1 [PFloat 1, PFloat 2, PFloat 3] [PInt 0, PInt 1, PInt 1, PInt 2])
               \<lparr>is_edge_attr := (\<lambda>key. False)\<rparr>"
  have h1: "NumNodes_init (PInt 3) = Inr ?n3"
    and h2: "NumNodes_init (PDict ?m) = Inr ?nm"
    by (simp_all add: NumNodes_init_def)
  have h3: "Pad_init (PInt 5) PNone PNone PNone PNone None = Inr scenario_pad"
    by (rule Pad_init_scenario)
  have h4: "filter (\<lambda>attr. is_edge_attr ?st attr \<and> should_pad_edge_attr scenario_pad attr)
              (keys ?st) = []"
    by simp
  note a = absent_max_num_edges_is_derived [of 3 ?n3 ?m PNone ?em "PInt 5" PNone PNone PNone
      PNone None scenario_pad "''edge_index''" scenario_pad ?st scenario_cat_dim "Inl 3" PNone]
  note b = absent_max_num_edges_is_derived [of 3 ?nm ?m PNone ?em "PInt 5" PNone PNone PNone
      PNone None scenario_pad "''edge_attr''" scenario_pad ?st scenario_cat_dim "Inl 3" PNone]
  from a h1 have one: "NumEdges_init PNone ?n3
      = Inr \<lparr>ne_value = PInt (3 * 3), ne_is_number = True, num_nodes = ?n3\<rparr>"
    by blast
  from b h2 have two: "NumEdges_init PNone ?nm = Inr ?em" by blast
  from b two have three: "\<not> is_none ?em" by blast
  from a h3 have four: "\<not> is_none (max_num_edges scenario_pad)"
    "should_pad_edge_attr scenario_pad ''edge_index''
       = (''edge_index'' = ''edge_index'' \<or> ''edge_index'' \<notin> set (exclude_keys scenario_pad))"
    by blast+
  from b h3 have five: "should_pad_edge_attr scenario_pad ''edge_attr''
       = (''edge_attr'' = ''edge_index'' \<or> ''edge_attr'' \<notin> set (exclude_keys scenario_pad))"
    by blast
  from a h4 have six: "pad_edge_store scenario_pad ?st scenario_cat_dim (Inl 3) PNone
      = Inr (?st, scenario_pad)"
    by blast
  from h1 h2 h3 one two three four five six show ?thesis
    by (simp add: scenario_pad_def)
qed

text \<open>Reading the nested cache after a write.\<close>

lemma get_nested_set_nested:
  "get_nested (set_nested d src dst et v) src' dst' et' =
     (if src' = src \<and> dst' = dst \<and> et' = et then Some v else get_nested d src' dst' et')"
  by (auto simp: get_nested_def set_nested_def update_conv' split: option.splits pyval.splits)

lemma NumEdges_get_val_keeps:
  assumes "NumEdges_get_val self key = Inr (n, self')"
    and "ne_value self = PDict d" and "get_nested d src dst et = Some x"
  shows "\<exists>d'. ne_value self' = PDict d' \<and> get_nested d' src dst et = Some x"
proof (cases "ne_is_number self")
  case True
  with assms(1) have "self' = self" by (simp add: NumEdges_get_val_def)
  with assms(2,3) show ?thesis by blast
next
  case False
  with assms show ?thesis
    by (auto simp: NumEdges_get_val_def get_nested_set_nested
        split: pyval.splits list.splits option.splits sum.splits)
qed

text \<open>
  Claim C7: in the per-type mode, for a triple with no entry in the cache (neither
  pre-seeded nor derived before) whose endpoint node counts resolve to \<open>a\<close> and \<open>b\<close>, the
  first resolution returns \<open>a * b\<close> and stores it under the triple; resolving the triple
  again returns that stored value and changes nothing, whatever the node-count resolver
  would now answer (nothing is recomputed); and no resolution changes an entry that is
  set.
\<close>

theorem NumEdges_cache:
  assumes "ne_value self = PDict d" and "\<not> ne_is_number self"
    and "get_nested d src dst rel = None"
    and "NumNodes_get_val (num_nodes self) src = Inr (PInt a)"
    and "NumNodes_get_val (num_nodes self) dst = Inr (PInt b)"
  shows "\<exists>self'. NumEdges_get_val self (PTuple [src, rel, dst]) = Inr (PInt (a * b), self')
      \<and> self' = self\<lparr>ne_value := PDict (set_nested d src dst rel (PInt (a * b)))\<rparr>
      \<and> get_nested (set_nested d src dst rel (PInt (a * b))) src dst rel = Some (PInt (a * b))
      \<and> (\<forall>nodes'. NumEdges_get_val (self'\<lparr>num_nodes := nodes'\<rparr>) (PTuple [src, rel, dst])
                     = Inr (PInt (a * b), self'\<lparr>num_nodes := nodes'\<rparr>))
      \<and> (\<forall>key n self'' src' dst' rel' x.
            NumEdges_get_val self' key = Inr (n, self'') \<and>
            get_nested (set_nested d src dst rel (PInt (a * b))) src' dst' rel' = Some x \<longrightarrow>
            (\<exists>d''. ne_value self'' = PDict d'' \<and> get_nested d'' src' dst' rel' = Some x))"
proof -
  let ?d' = "set_nested d src dst rel (PInt (a * b))"
  let ?self' = "self\<lparr>ne_value := PDict ?d'\<rparr>"
  have 1: "NumEdges_get_val self (PTuple [src, rel, dst]) = Inr (PInt (a * b), ?self')"
    using assms by (simp add: NumEdges_get_val_def)
  have 2: "get_nested ?d' src dst rel = Some (PInt (a * b))"
    by (simp add: get_nested_set_nested)
  have 3: "NumEdges_get_val (?self'\<lparr>num_nodes := nodes'\<rparr>) (PTuple [src, rel, dst])
             = Inr (PInt (a * b), ?self'\<lparr>num_nodes := nodes'\<rparr>)" for nodes'
    using assms(2) 2 by (simp add: NumEdges_get_val_def)
  have 4: "\<exists>d''. ne_value self'' = PDict d'' \<and> get_nested d'' src' dst' rel' = Some x"
    if "NumEdges_get_val ?self' key = Inr (n, self'')" "get_nested ?d' src' dst' rel' = Some x"
    for key n self'' src' dst' rel' x
    using NumEdges_get_val_keeps [OF that(1) _ that(2)] by simp
  from 1 2 3 4 show ?thesis by blast
qed

theorem NumEdges_cache_witness:
  "NumEdges_get_val
     \<lparr>ne_value = PDict [], ne_is_number = False,
      num_nodes = \<lparr>nn_value = PDict [(PStr ''a'', PInt 4), (PStr ''b'', PInt 5)],
                   nn_is_number = False\<rparr>\<rparr>
     (PTuple [PStr ''a'', PStr ''rel'', PStr ''b''])
   = Inr (PInt 20,
      \<lparr>ne_value = PDict [(PTuple [PStr ''a'', PStr ''b''], PDict [(PStr ''rel'', PInt 20)])],
       ne_is_number = False,
       num_nodes = \<lparr>nn_value = PDict [(PStr ''a'', PInt 4), (PStr ''b'', PInt 5)],
                    nn_is_number = False\<rparr>\<rparr>)
   \<and> NumEdges_get_val
     \<lparr>ne_value = PDict [(PTuple [PStr ''a'', PStr ''b''], PDict [(PStr ''rel'', PInt 20)])],
      ne_is_number = False,
      num_nodes = \<lparr>nn_value = PDict [], nn_is_number = False\<rparr>\<rparr>
     (PTuple [PStr ''a'', PStr ''rel'', PStr ''b''])
   = Inr (PInt 20,
      \<lparr>ne_value = PDict [(PTuple [PStr ''a'', PStr ''b''], PDict [(PStr ''rel'', PInt 20)])],
       ne_is_number = False,
       num_nodes = \<lparr>nn_value = PDict [], nn_is_number = False\<rparr>\<rparr>)"
proof -
  let ?nodes = "\<lparr>nn_value = PDict [(PStr ''a'', PInt 4), (PStr ''b'', PInt 5)],
                 nn_is_number = False\<rparr>"
  let ?self = "\<lparr>ne_value = PDict [], ne_is_number = False, num_nodes = ?nodes\<rparr>"
  have h1: "ne_value ?self = PDict []" and h2: "\<not> ne_is_number ?self"
    and h3: "get_nested [] (PStr ''a'') (PStr ''b'') (PStr ''rel'') = None"
    and h4: "NumNodes_get_val (num_nodes ?self) (PStr ''a'') = Inr (PInt 4)"
    and h5: "NumNodes_get_val (num_nodes ?self) (PStr ''b'') = Inr (PInt 5)"
    by (simp_all add: get_nested_def NumNodes_get_val_def)
  from NumEdges_cache [OF h1 h2 h3 h4 h5] obtain self'
    where r: "NumEdges_get_val ?self (PTuple [PStr ''a'', PStr ''rel'', PStr ''b''])
                = Inr (PInt (4 * 5), self')"
      "self' = ?self\<lparr>ne_value :=
                 PDict (set_nested [] (PStr ''a'') (PStr ''b'') (PStr ''rel'') (PInt (4 * 5)))\<rparr>"
      "\<forall>nodes'. NumEdges_get_val (self'\<lparr>num_nodes := nodes'\<rparr>)
                   (PTuple [PStr ''a'', PStr ''rel'', PStr ''b''])
                 = Inr (PInt (4 * 5), self'\<lparr>num_nodes := nodes'\<rparr>)"
    by blast
  from r(3) have "NumEdges_get_val (self'\<lparr>num_nodes := \<lparr>nn_value = PDict [], nn_is_number = False\<rparr>\<rparr>)
                   (PTuple [PStr ''a'', PStr ''rel'', PStr ''b''])
                 = Inr (PInt (4 * 5), self'\<lparr>num_nodes := \<lparr>nn_value = PDict [], nn_is_number = False\<rparr>\<rparr>)"
    by blast
  with r(1,2) show ?thesis by (simp add: set_nested_def)
qed

section \<open>Construction of the padding policies\<close>

lemma process_eq_map:
  "process items = Inr (map (\<lambda>(k, v). (k, if is_PadVal v then UniformPaddingObj v else v)) items)"
  by (induction items) (auto simp: UniformPadding_init_def)

lemma is_str_iff: "is_str k \<longleftrightarrow> (\<exists>s. k = PStr s)"
  by (cases k) auto

lemma is_UniformPadding_iff: "is_UniformPadding v \<longleftrightarrow> (\<exists>u. v = UniformPaddingObj u)"
  by (cases v) auto

lemma is_instance_iff: "is_instance c v \<longleftrightarrow> (\<exists>M d. v = MappingPaddingObj c M d)"
  by (cases v) auto

lemma list_all_is_str3:
  "length ks = 3 \<Longrightarrow> list_all is_str ks \<longleftrightarrow> (\<exists>s r t. ks = [PStr s, PStr r, PStr t])"
  by (auto simp: length_Suc_conv numeral_3_eq_3 is_str_iff)

lemma validate_key_val_iff:
  "validate_key_val c k v = Inr () \<longleftrightarrow>
     (if c = EdgeTypePadding then \<exists>s r t. k = PTuple [PStr s, PStr r, PStr t] else is_str k)
     \<and> val_types c v"
proof (cases c)
  case EdgeTypePadding
  show ?thesis
  proof (cases k)
    case (PTuple ks)
    show ?thesis
    proof (cases "length ks = 3")
      case True
      with EdgeTypePadding PTuple list_all_is_str3 [OF True] show ?thesis
        by (auto simp: edge_validate_key_val_def base_validate_key_val_def)
    next
      case False
      with EdgeTypePadding PTuple show ?thesis
        by (auto simp: edge_validate_key_val_def base_validate_key_val_def)
    qed
  qed (use EdgeTypePadding in \<open>auto simp: edge_validate_key_val_def base_validate_key_val_def\<close>)
qed (auto simp: base_validate_key_val_def)

lemma validate_items_iff:
  "validate_items c items = Inr () \<longleftrightarrow> (\<forall>(k, v) \<in> set items. validate_key_val c k v = Inr ())"
  by (induction items) (auto split: sum.splits)

lemma validate_items_cases:
  "validate_items c items = Inr () \<or> (\<exists>e. validate_items c items = Inl e)"
  by (cases "validate_items c items") auto

text \<open>When construction of a mapping policy succeeds, and what it builds.\<close>

lemma MappingPadding_init_Inr_iff:
  "MappingPadding_init c pv d = Inr obj \<longleftrightarrow>
      (pv = PNone \<and> obj = MappingPaddingObj c [] d)
      \<or> (\<exists>items. pv = PDict items
            \<and> (\<forall>(k, v) \<in> set items.
                  (if c = EdgeTypePadding then \<exists>s r t. k = PTuple [PStr s, PStr r, PStr t]
                   else is_str k)
                  \<and> val_types c v)
            \<and> obj = MappingPaddingObj c
                      (map (\<lambda>(k, v). (k, if is_PadVal v then UniformPaddingObj v else v)) items) d)"
proof (cases pv)
  case (PDict items)
  have "validate_items c items = Inr () \<longleftrightarrow>
      (\<forall>(k, v) \<in> set items.
          (if c = EdgeTypePadding then \<exists>s r t. k = PTuple [PStr s, PStr r, PStr t]
           else is_str k) \<and> val_types c v)"
    unfolding validate_items_iff validate_key_val_iff ..
  with PDict validate_items_cases [of c items] show ?thesis
    by (auto simp: MappingPadding_init_def validate_def process_eq_map)
qed (auto simp: MappingPadding_init_def validate_def)

text \<open>
  Claim C9: construction of a mapping policy validates before it returns.  It succeeds
  exactly when \<^verbatim>\<open>padding_values\<close> is absent (the empty mapping) or is a mapping each of whose
  keys has the expected shape (for an edge-type policy a tuple of exactly three strings,
  a string otherwise) and each of whose values has a type the class accepts; the policy
  built stores every scalar value wrapped into a uniform policy.  An argument that is
  neither absent nor a mapping is rejected; and an attribute-name policy given the
  2-tuple key \<^verbatim>\<open>('x', 'y')\<close> is rejected for the type of its key.
\<close>

theorem MappingPadding_construction:
  "(MappingPadding_init c pv d = Inr obj \<longleftrightarrow>
      (pv = PNone \<and> obj = MappingPaddingObj c [] d)
      \<or> (\<exists>items. pv = PDict items
            \<and> (\<forall>(k, v) \<in> set items.
                  (if c = EdgeTypePadding then \<exists>s r t. k = PTuple [PStr s, PStr r, PStr t]
                   else is_str k)
                  \<and> val_types c v)
            \<and> obj = MappingPaddingObj c
                      (map (\<lambda>(k, v). (k, if is_PadVal v then UniformPaddingObj v else v)) items) d))
   \<and> (pv \<noteq> PNone \<and> \<not> is_dict pv \<longrightarrow>
        MappingPadding_init c pv d = Inl (PaddingValuesNotDict pv))
   \<and> MappingPadding_init AttrNamePadding (PDict [(PTuple [PStr ''x'', PStr ''y''], PFloat 1)]) d
        = Inl (KeyTypeNotAccepted AttrNamePadding)"
proof (intro conjI)
  show "MappingPadding_init c pv d = Inr obj \<longleftrightarrow>
      (pv = PNone \<and> obj = MappingPaddingObj c [] d)
      \<or> (\<exists>items. pv = PDict items
            \<and> (\<forall>(k, v) \<in> set items.
                  (if c = EdgeTypePadding then \<exists>s r t. k = PTuple [PStr s, PStr r, PStr t]
                   else is_str k)
                  \<and> val_types c v)
            \<and> obj = MappingPaddingObj c
                      (map (\<lambda>(k, v). (k, if is_PadVal v then UniformPaddingObj v else v)) items) d)"
    by (rule MappingPadding_init_Inr_iff)
  show "pv \<noteq> PNone \<and> \<not> is_dict pv \<longrightarrow>
        MappingPadding_init c pv d = Inl (PaddingValuesNotDict pv)"
    by (cases pv) (auto simp: MappingPadding_init_def validate_def)
  show "MappingPadding_init AttrNamePadding (PDict [(PTuple [PStr ''x'', PStr ''y''], PFloat 1)]) d
        = Inl (KeyTypeNotAccepted AttrNamePadding)"
    by (simp add: MappingPadding_init_def validate_def base_validate_key_val_def)
qed

theorem MappingPadding_construction_witness:
  "MappingPadding_init EdgeTypePadding
     (PDict [(PTuple [PStr ''v1'', PStr ''e1'', PStr ''v2''], PFloat (-4))]) (PFloat 1)
   = Inr (MappingPaddingObj EdgeTypePadding
            [(PTuple [PStr ''v1'', PStr ''e1'', PStr ''v2''], UniformPaddingObj (PFloat (-4)))]
            (PFloat 1))
   \<and> MappingPadding_init NodeTypePadding (PList []) (PFloat 1)
       = Inl (PaddingValuesNotDict (PList []))"
  using MappingPadding_construction [of EdgeTypePadding
      "PDict [(PTuple [PStr ''v1'', PStr ''e1'', PStr ''v2''], PFloat (-4))]" "PFloat 1"
      "MappingPaddingObj EdgeTypePadding
            [(PTuple [PStr ''v1'', PStr ''e1'', PStr ''v2''], UniformPaddingObj (PFloat (-4)))]
            (PFloat 1)"]
    MappingPadding_construction [of NodeTypePadding "PList []" "PFloat 1" PNone]
  by simp

section \<open>Resolution of the padding policies\<close>

lemma map_of_wrapped:
  "map_of (map (\<lambda>(k, v). (k, f v)) items) key = Some p
   \<Longrightarrow> \<exists>v. (key, v) \<in> set items \<and> p = f v"
  by (induction items) (auto split: if_splits)

text \<open>What construction guarantees of the values an attribute-name policy stores.\<close>

lemma AttrNamePadding_values:
  assumes "MappingPadding_init AttrNamePadding pv d = Inr obj"
  shows "\<exists>M. obj = MappingPaddingObj AttrNamePadding M d
           \<and> (\<forall>key p. map_of M key = Some p \<longrightarrow> is_UniformPadding p)"
proof -
  from assms consider "pv = PNone" "obj = MappingPaddingObj AttrNamePadding [] d"
    | items where "pv = PDict items"
        "\<forall>(k, v) \<in> set items. is_str k \<and> val_types AttrNamePadding v"
        "obj = MappingPaddingObj AttrNamePadding
                 (map (\<lambda>(k, v). (k, if is_PadVal v then UniformPaddingObj v else v)) items) d"
    unfolding MappingPadding_init_Inr_iff by auto
  then show ?thesis
  proof cases
    case 1
    then show ?thesis by simp
  next
    case 2
    have "is_UniformPadding p"
      if "map_of (map (\<lambda>(k, v). (k, if is_PadVal v then UniformPaddingObj v else v)) items) key
            = Some p" for key p
    proof -
      from map_of_wrapped [OF that] obtain v
        where "(key, v) \<in> set items" "p = (if is_PadVal v then UniformPaddingObj v else v)"
        by blast
      with 2(2) show ?thesis by (cases v) auto
    qed
    with 2(3) show ?thesis by blast
  qed
qed

lemma get_val_AttrName_total:
  assumes "\<forall>key p. map_of M key = Some p \<longrightarrow> is_UniformPadding p"
  shows "\<exists>r. get_val (MappingPaddingObj AttrNamePadding M d) store_type attr_name = Inr r"
proof (cases "map_of M attr_name")
  case None
  then show ?thesis by simp
next
  case (Some p)
  with assms obtain u where "p = UniformPaddingObj u"
    by (auto simp: is_UniformPadding_iff)
  with Some show ?thesis by simp
qed

lemma get_val_by_store_type:
  "c \<noteq> AttrNamePadding \<Longrightarrow>
   get_val (MappingPaddingObj c M d) store_type attr_name =
     (case map_of M store_type of
        Some p \<Rightarrow> get_val p PNone attr_name
      | None \<Rightarrow> Inr d)"
  by (cases c) simp_all

text \<open>A policy keyed by node or edge type, once constructed, resolves without raising.\<close>

lemma get_val_by_store_type_total:
  assumes c: "c \<noteq> AttrNamePadding"
    and built: "MappingPadding_init c pv d = Inr obj"
    and nested: "\<forall>items k v. pv = PDict items \<longrightarrow> (k, v) \<in> set items \<longrightarrow>
                   is_instance AttrNamePadding v \<longrightarrow>
                   (\<exists>pv' d'. MappingPadding_init AttrNamePadding pv' d' = Inr v)"
  shows "\<exists>r. get_val obj store_type attr_name = Inr r"
proof -
  from built consider "pv = PNone" "obj = MappingPaddingObj c [] d"
    | items where "pv = PDict items"
        "\<forall>(k, v) \<in> set items. val_types c v"
        "obj = MappingPaddingObj c
                 (map (\<lambda>(k, v). (k, if is_PadVal v then UniformPaddingObj v else v)) items) d"
    unfolding MappingPadding_init_Inr_iff by auto
  then show ?thesis
  proof cases
    case 1
    with c show ?thesis by (simp add: get_val_by_store_type)
  next
    case 2
    let ?M = "map (\<lambda>(k, v). (k, if is_PadVal v then UniformPaddingObj v else v)) items"
    show ?thesis
    proof (cases "map_of ?M store_type")
      case None
      with 2(3) c show ?thesis by (simp add: get_val_by_store_type)
    next
      case (Some p)
      from map_of_wrapped [OF Some] obtain v where v: "(store_type, v) \<in> set items"
        "p = (if is_PadVal v then UniformPaddingObj v else v)" by blast
      with 2(2) have ok: "val_types c v" by auto
      have "\<exists>r. get_val p PNone attr_name = Inr r"
      proof (cases "is_instance AttrNamePadding v")
        case True
        with nested 2(1) v(1) obtain pv' d'
          where "MappingPadding_init AttrNamePadding pv' d' = Inr v"
          by blast
        from AttrNamePadding_values [OF this] True v(2) show ?thesis
          by (auto simp: is_instance_iff dest: get_val_AttrName_total)
      next
        case False
        with ok v(2) c show ?thesis
          by (cases c; cases v) auto
      qed
      with Some 2(3) c show ?thesis by (simp add: get_val_by_store_type)
    qed
  qed
qed

text \<open>
  Claim C6: a uniform policy resolves to its value for all keys.  For a mapping policy
  that construction returned (its nested attribute-name policies being constructed ones
  too), resolution never raises, and with \<open>M\<close> the mapping it stores and \<open>d\<close> its default:
  an attribute-name policy resolves to the uniform value of \<open>M[name]\<close> if the name is in
  \<open>M\<close>, else to \<open>d\<close>; a node-type or edge-type policy resolves to what \<open>M[type]\<close> resolves
  to for no type and the same name if the type is in \<open>M\<close>, else to \<open>d\<close>.
\<close>

theorem get_val_resolution:
  assumes built: "MappingPadding_init c pv d = Inr obj"
    and nested: "\<forall>items k v. pv = PDict items \<longrightarrow> (k, v) \<in> set items \<longrightarrow>
                   is_instance AttrNamePadding v \<longrightarrow>
                   (\<exists>pv' d'. MappingPadding_init AttrNamePadding pv' d' = Inr v)"
  shows "get_val (UniformPaddingObj u) store_type attr_name = Inr u
    \<and> (\<exists>M. obj = MappingPaddingObj c M d
          \<and> (c = AttrNamePadding \<longrightarrow>
                get_val obj store_type attr_name =
                  (case map_of M attr_name of
                     Some p \<Rightarrow> get_val p PNone PNone
                   | None \<Rightarrow> Inr d)
                \<and> (\<forall>p. map_of M attr_name = Some p \<longrightarrow>
                       (\<exists>x. p = UniformPaddingObj x \<and> get_val obj store_type attr_name = Inr x)))
          \<and> (c \<noteq> AttrNamePadding \<longrightarrow>
                get_val obj store_type attr_name =
                  (case map_of M store_type of
                     Some p \<Rightarrow> get_val p PNone attr_name
                   | None \<Rightarrow> Inr d)))
    \<and> (\<exists>r. get_val obj store_type attr_name = Inr r)"
proof (cases "c = AttrNamePadding")
  case True
  from AttrNamePadding_values [OF built [unfolded True]] obtain M
    where M: "obj = MappingPaddingObj AttrNamePadding M d"
      "\<forall>key p. map_of M key = Some p \<longrightarrow> is_UniformPadding p"
    by blast
  from get_val_AttrName_total [OF M(2)] M(1)
  have "\<exists>r. get_val obj store_type attr_name = Inr r" by simp
  moreover have "\<exists>x. p = UniformPaddingObj x \<and> get_val obj store_type attr_name = Inr x"
    if "map_of M attr_name = Some p" for p
  proof -
    from that M(2) obtain x where "p = UniformPaddingObj x"
      by (auto simp: is_UniformPadding_iff)
    with that M(1) show ?thesis by simp
  qed
  ultimately show ?thesis using M(1) True by simp
next
  case False
  from built obtain M where M: "obj = MappingPaddingObj c M d"
    unfolding MappingPadding_init_Inr_iff by auto
  from get_val_by_store_type_total [OF False built nested]
  have "\<exists>r. get_val obj store_type attr_name = Inr r" .
  with M False show ?thesis by (simp add: get_val_by_store_type)
qed

theorem get_val_resolution_witness:
  "MappingPadding_init NodeTypePadding
     (PDict [(PStr ''v1'',
              MappingPaddingObj AttrNamePadding
                [(PStr ''x'', UniformPaddingObj (PFloat 3)), (PStr ''y'', UniformPaddingObj (PFloat 0))]
                (PFloat 0)),
             (PStr ''v2'', PFloat 3)])
     (PFloat 1)
   = Inr (MappingPaddingObj NodeTypePadding
            [(PStr ''v1'',
              MappingPaddingObj AttrNamePadding
                [(PStr ''x'', UniformPaddingObj (PFloat 3)), (PStr ''y'', UniformPaddingObj (PFloat 0))]
                (PFloat 0)),
             (PStr ''v2'', UniformPaddingObj (PFloat 3))]
            (PFloat 1))
   \<and> get_val (MappingPaddingObj NodeTypePadding
            [(PStr ''v1'',
              MappingPaddingObj AttrNamePadding
                [(PStr ''x'', UniformPaddingObj (PFloat 3)), (PStr ''y'', UniformPaddingObj (PFloat 0))]
                (PFloat 0)),
             (PStr ''v2'', UniformPaddingObj (PFloat 3))]
            (PFloat 1)) (PStr ''v1'') (PStr ''x'') = Inr (PFloat 3)"
proof -
  let ?attr = "MappingPaddingObj AttrNamePadding
                [(PStr ''x'', UniformPaddingObj (PFloat 3)), (PStr ''y'', UniformPaddingObj (PFloat 0))]
                (PFloat 0)"
  let ?pv = "PDict [(PStr ''v1'', ?attr), (PStr ''v2'', PFloat 3)]"
  let ?obj = "MappingPaddingObj NodeTypePadding
                [(PStr ''v1'', ?attr), (PStr ''v2'', UniformPaddingObj (PFloat 3))] (PFloat 1)"
  have built: "MappingPadding_init NodeTypePadding ?pv (PFloat 1) = Inr ?obj"
    by (simp add: MappingPadding_init_def validate_def base_validate_key_val_def
        UniformPadding_init_def)
  have inner: "MappingPadding_init AttrNamePadding
                 (PDict [(PStr ''x'', UniformPaddingObj (PFloat 3)), (PStr ''y'', PFloat 0)])
                 (PFloat 0) = Inr ?attr"
    by (simp add: MappingPadding_init_def validate_def base_validate_key_val_def
        UniformPadding_init_def)
  have nested: "\<forall>items k v. ?pv = PDict items \<longrightarrow> (k, v) \<in> set items \<longrightarrow>
                   is_instance AttrNamePadding v \<longrightarrow>
                   (\<exists>pv' d'. MappingPadding_init AttrNamePadding pv' d' = Inr v)"
    using inner by auto
  from get_val_resolution [OF built nested, of "PFloat 0" "PStr ''v1''" "PStr ''x''"] built
  show ?thesis by simp
qed

section \<open>The padding primitive on well-formed tensors\<close>

lemma length_chunks: "length (chunks m k xs) = m"
  by (induction m arbitrary: xs) auto






lemma length_shape_pad_dim [simp]: "length (shape (pad_dim t k l r v)) = length (shape t)"
  by (simp add: pad_dim_def Let_def)









section \<open>Padding the connectivity tensor\<close>









section \<open>Stores under the loops of the orchestrator\<close>




lemma setitem_fields [simp]:
  "is_node_attr (setitem st k t) = is_node_attr st"
  "is_edge_attr (setitem st k t) = is_edge_attr st"
  "store_num_nodes (setitem st k t) = store_num_nodes st"
  "store_num_edges (setitem st k t) = store_num_edges st"
  by (simp_all add: setitem_def)

text \<open>Deleting the excluded keys.\<close>

lemma remove_excluded_fold:
  "keys (fold (\<lambda>key st. if key \<in> set (keys st) then delitem st key else st) ks st)
     = filter (\<lambda>k. k \<notin> set ks) (keys st)
   \<and> (\<forall>a. map_of (attrs (fold (\<lambda>key st. if key \<in> set (keys st) then delitem st key else st) ks st)) a
          = (if a \<in> set ks then None else map_of (attrs st) a))
   \<and> is_node_attr (fold (\<lambda>key st. if key \<in> set (keys st) then delitem st key else st) ks st)
        = is_node_attr st
   \<and> is_edge_attr (fold (\<lambda>key st. if key \<in> set (keys st) then delitem st key else st) ks st)
        = is_edge_attr st
   \<and> store_num_nodes (fold (\<lambda>key st. if key \<in> set (keys st) then delitem st key else st) ks st)
        = store_num_nodes st
   \<and> store_num_edges (fold (\<lambda>key st. if key \<in> set (keys st) then delitem st key else st) ks st)
        = store_num_edges st"
proof (induction ks arbitrary: st)
  case Nil
  then show ?case by simp
next
  case (Cons k ks)
  show ?case
  proof (cases "k \<in> set (keys st)")
    case True
    have "keys (delitem st k) = removeAll k (keys st)"
      by (simp add: keys_def delitem_def delete_keys)
    moreover have "map_of (attrs (delitem st k)) a = (if a = k then None else map_of (attrs st) a)"
      for a by (simp add: delitem_def delete_conv')
    moreover have "filter (\<lambda>x. k \<noteq> x \<and> x \<notin> set ks) (keys st)
        = filter (\<lambda>x. x \<noteq> k \<and> x \<notin> set ks) (keys st)"
      by (intro filter_cong) auto
    ultimately show ?thesis
      using True Cons.IH [of "delitem st k"]
      by (auto simp: removeAll_filter_not_eq delitem_def)
  next
    case False
    then have "map_of (attrs st) k = None"
      by (simp add: keys_def map_of_eq_None_iff)
    moreover from False have "filter (\<lambda>x. x \<noteq> k \<and> x \<notin> set ks) (keys st)
        = filter (\<lambda>x. x \<notin> set ks) (keys st)"
      by (intro filter_cong) auto
    ultimately show ?thesis
      using False Cons.IH [of st] by auto
  qed
qed



lemma remove_excluded_fields [simp]:
  "is_node_attr (remove_excluded self st) = is_node_attr st"
  "is_edge_attr (remove_excluded self st) = is_edge_attr st"
  "store_num_nodes (remove_excluded self st) = store_num_nodes st"
  "store_num_edges (remove_excluded self st) = store_num_edges st"
  using remove_excluded_fold [of "exclude_keys self" st] by (simp_all add: remove_excluded_def)







lemma cache_only_refl [simp]: "cache_only self self"
  by (simp add: cache_only_def)






section \<open>The homogeneous scenario\<close>







section \<open>The connectivity attribute of a padded edge store\<close>






section \<open>The heterogeneous scenario\<close>


lemma remove_excluded_hetero [simp]: "remove_excluded hetero_pad st = st"
  by (simp add: remove_excluded_def hetero_pad_def)

lemma remove_excluded_hetero_cache [simp]:
  "remove_excluded (hetero_pad\<lparr>max_num_edges := c\<rparr>) st = st"
  by (simp add: remove_excluded_def hetero_pad_def)





section \<open>Targets that do not exceed the current counts\<close>







section \<open>Excluded keys\<close>

lemma Pad_init_exclude_keys:
  assumes "Pad_init max_nodes max_edges node_pad_value edge_pad_value mask_pad_value excl = Inr built"
  shows "exclude_keys built = (case excl of None \<Rightarrow> [] | Some ks \<Rightarrow> remdups ks)"
    and "''x'' \<notin> set (exclude_keys built)"
proof -
  from assms
  show e: "exclude_keys built = (case excl of None \<Rightarrow> [] | Some ks \<Rightarrow> remdups ks)"
    by (auto simp: Pad_init_def Let_def split: sum.splits if_splits)
  from assms have "''x'' \<notin> set (case excl of None \<Rightarrow> [] | Some ks \<Rightarrow> remdups ks)"
    by (auto simp: Pad_init_def Let_def split: sum.splits if_splits)
  with e show "''x'' \<notin> set (exclude_keys built)" by simp
qed








section \<open>The frame of a call\<close>




end
